theory Spec2Isabelle
  imports Main "HOL-Library.Word"
begin

section \<open>Pearl-2P signaling server: data model\<close>

text \<open>
  The server of \<^verbatim>\<open>src/README.md\<close> (class \<^verbatim>\<open>Pearl2PServer\<close>, version 1.0.1, the one
  with rooms) is embedded handler by handler.  \<^verbatim>\<open>src/pearl.js\<close> is version 1.0.0 of the
  same class; its \<^verbatim>\<open>send\<close>, \<^verbatim>\<open>generateId\<close> and \<^verbatim>\<open>handleConnection\<close> are the same
  functions.  \<^verbatim>\<open>startHeartbeat\<close> pings and terminates sockets; it calls neither
  \<^verbatim>\<open>send\<close> nor any room code and is not modelled, and logging is left out.

  Values that arrive from \<^verbatim>\<open>JSON.parse\<close>.  \<open>JUndefined\<close> is what reading an absent
  property gives.  JSON numbers and arrays are not part of the model: no handler
  computes with them, and their conversion to text is floating-point printing.
  An object is the list of its own properties, each key once.
\<close>

datatype jsval =
    JUndefined
  | JNull
  | JBool bool
  | JStr string
  | JObj "(string \<times> jsval) list"

text \<open>JavaScript truthiness, as \<^verbatim>\<open>!x\<close> and \<^verbatim>\<open>x || y\<close> read it.\<close>

fun truthy :: "jsval \<Rightarrow> bool" where
  "truthy JUndefined = False"
| "truthy JNull = False"
| "truthy (JBool b) = b"
| "truthy (JStr s) = (s \<noteq> [])"
| "truthy (JObj fs) = True"

text \<open>
  Property read \<^verbatim>\<open>x.k\<close> on a value that is neither \<^verbatim>\<open>null\<close> nor \<^verbatim>\<open>undefined\<close>
  (those two throw; every read in the handlers is made where the model says so).
  The handlers only read \<^verbatim>\<open>type\<close>, \<^verbatim>\<open>payload\<close>, \<^verbatim>\<open>target\<close>, \<^verbatim>\<open>project\<close>,
  \<^verbatim>\<open>instance\<close> and \<^verbatim>\<open>room\<close>, none of which a string, a boolean or
  \<^verbatim>\<open>Object.prototype\<close> has.
\<close>

fun getProp :: "jsval \<Rightarrow> string \<Rightarrow> jsval" where
  "getProp (JObj fs) k = (case map_of fs k of Some v \<Rightarrow> v | None \<Rightarrow> JUndefined)"
| "getProp v k = JUndefined"

datatype error = TypeError

text \<open>
  Conversion to text inside a template literal.  A parsed object prints as
  \<^verbatim>\<open>[object Object]\<close> through the inherited \<^verbatim>\<open>toString\<close>; an own property of that
  name hides it with a value that cannot be called, and the conversion throws.
\<close>

fun toString :: "jsval \<Rightarrow> error + string" where
  "toString JUndefined = Inr ''undefined''"
| "toString JNull = Inr ''null''"
| "toString (JBool b) = Inr (if b then ''true'' else ''false'')"
| "toString (JStr s) = Inr s"
| "toString (JObj fs) =
     (if map_of fs ''toString'' = None then Inr ''[object Object]'' else Inl TypeError)"

text \<open>The \<^verbatim>\<open>readyState\<close> of a \<^verbatim>\<open>ws\<close> socket.\<close>

datatype readyState = CONNECTING | OPEN | CLOSING | CLOSED

text \<open>
  Class \<^verbatim>\<open>Peer\<close>.  The field \<^verbatim>\<open>id\<close> is \<open>peer_id\<close> here (\<open>id\<close> is HOL's identity
  function); of the socket only its ready state is kept.
\<close>

record Peer =
  socket :: readyState
  peer_id :: string
  isAlive :: bool
  roomKey :: "string option"
  isHost :: bool

text \<open>
  A room: \<^verbatim>\<open>{ hostId, peers: new Set() }\<close>.  The set \<^verbatim>\<open>peers\<close> is \<open>room_peers\<close>, a list
  in insertion order (the order \<^verbatim>\<open>forEach\<close> visits it in).
\<close>

record Room =
  hostId :: string
  room_peers :: "string list"

text \<open>
  Messages from the server to a peer.  Constant fields (\<^verbatim>\<open>role\<close>, and the
  \<^verbatim>\<open>message\<close> texts of \<^verbatim>\<open>welcome\<close>, \<^verbatim>\<open>room-created\<close> and
  \<^verbatim>\<open>host-disconnected\<close>) are left out.
\<close>

datatype message =
    Welcome string
  | RoomCreated jsval
  | RoomJoined jsval string
  | PeerJoined string
  | PeerLeft string
  | HostDisconnected
  | Signal string jsval
  | Data string jsval
  | Error nat string

text \<open>
  The server.  \<^verbatim>\<open>Peer\<close> objects are shared between the map \<^verbatim>\<open>peers\<close> and the
  closures that \<^verbatim>\<open>handleConnection\<close> registers on the socket, so they live in a
  store: \<open>heap\<close> maps a reference to the object, \<open>nextRef\<close> is the first unused
  reference, and \<open>peers\<close> maps an identity to a reference.  \<open>sent\<close> records, oldest
  first, every frame handed to \<^verbatim>\<open>socket.send\<close> with the peer it went to.
\<close>

record Pearl2PServer =
  heap :: "nat \<Rightarrow> Peer"
  nextRef :: nat
  peers :: "string \<rightharpoonup> nat"
  rooms :: "string \<rightharpoonup> Room"
  sent :: "(nat \<times> message) list"

section \<open>The handlers\<close>

text \<open>\<^verbatim>\<open>send(peer, data)\<close>: the frame goes out only on an open socket.\<close>

definition send :: "nat \<Rightarrow> message \<Rightarrow> Pearl2PServer \<Rightarrow> Pearl2PServer" where
  "send peer data s =
     (if socket (heap s peer) = OPEN then s\<lparr>sent := sent s @ [(peer, data)]\<rparr> else s)"

definition sendError :: "nat \<Rightarrow> nat \<Rightarrow> string \<Rightarrow> Pearl2PServer \<Rightarrow> Pearl2PServer" where
  "sendError peer code msg s = send peer (Error code msg) s"

text \<open>
  \<^verbatim>\<open>generateId\<close>: \<^verbatim>\<open>crypto.randomBytes(4).toString('hex')\<close>.  The random bytes are
  an argument.
\<close>

definition hexDigit :: "nat \<Rightarrow> char" where
  "hexDigit n = ''0123456789abcdef'' ! (n mod 16)"

definition hexByte :: "8 word \<Rightarrow> string" where
  "hexByte b = [hexDigit (unat b div 16), hexDigit (unat b mod 16)]"

definition generateId :: "8 word list \<Rightarrow> string" where
  "generateId randomBytes = concat (map hexByte randomBytes)"

text \<open>
  \<^verbatim>\<open>handleConnection(socket)\<close>; \<open>randomBytes\<close> is what \<^verbatim>\<open>crypto.randomBytes(4)\<close>
  returns to \<^verbatim>\<open>generateId\<close>.
\<close>

definition handleConnection :: "readyState \<Rightarrow> 8 word list \<Rightarrow> Pearl2PServer \<Rightarrow> Pearl2PServer" where
  "handleConnection sock randomBytes s =
     (let peerId = generateId randomBytes;
          peer = nextRef s;
          s1 = s\<lparr>heap := (heap s)(peer :=
                      \<lparr>socket = sock, peer_id = peerId, isAlive = True,
                       roomKey = None, isHost = False\<rparr>),
                  nextRef := Suc peer\<rparr>;
          s2 = s1\<lparr>peers := (peers s1)(peerId \<mapsto> peer)\<rparr>
      in send peer (Welcome peerId) s2)"

text \<open>
  The room key of \<^verbatim>\<open>handleJoinRoom\<close>:
  \<^verbatim>\<open>instance = payload.instance || 'default'\<close>, then the template literal
  \<^verbatim>\<open>${payload.project}#${instance}#${payload.room}\<close>, converted left to right.
\<close>

definition roomKeyOf :: "jsval \<Rightarrow> error + string" where
  "roomKeyOf payload =
     (let inst = (if truthy (getProp payload ''instance'')
                  then getProp payload ''instance'' else JStr ''default'')
      in case toString (getProp payload ''project'') of
           Inl e \<Rightarrow> Inl e
         | Inr p \<Rightarrow>
             (case toString inst of
                Inl e \<Rightarrow> Inl e
              | Inr i \<Rightarrow>
                  (case toString (getProp payload ''room'') of
                     Inl e \<Rightarrow> Inl e
                   | Inr r \<Rightarrow> Inr (p @ ''#'' @ i @ ''#'' @ r))))"

text \<open>\<^verbatim>\<open>Set.add\<close> on the insertion-ordered list.\<close>

definition setAdd :: "string \<Rightarrow> string list \<Rightarrow> string list" where
  "setAdd x xs = (if x \<in> set xs then xs else xs @ [x])"

text \<open>
  \<^verbatim>\<open>handleJoinRoom(peer, payload)\<close>.  The only statement that can throw is the
  template literal, before anything is written.
\<close>

definition handleJoinRoom :: "nat \<Rightarrow> jsval \<Rightarrow> Pearl2PServer \<Rightarrow> error + Pearl2PServer" where
  "handleJoinRoom peer payload s =
     (if \<not> truthy payload then Inr (sendError peer 400 ''Dados de projeto/sala incompletos.'' s)
      else if \<not> truthy (getProp payload ''project'')
        then Inr (sendError peer 400 ''Dados de projeto/sala incompletos.'' s)
      else if \<not> truthy (getProp payload ''room'')
        then Inr (sendError peer 400 ''Dados de projeto/sala incompletos.'' s)
      else
        (case roomKeyOf payload of
           Inl e \<Rightarrow> Inl e
         | Inr key \<Rightarrow>
             (case rooms s key of
                Some roomData \<Rightarrow>
                  (let s1 = s\<lparr>rooms := (rooms s)(key \<mapsto>
                                 roomData\<lparr>room_peers :=
                                   setAdd (peer_id (heap s peer)) (room_peers roomData)\<rparr>)\<rparr>;
                       s2 = s1\<lparr>heap := (heap s1)(peer :=
                                 (heap s1 peer)\<lparr>roomKey := Some key, isHost := False\<rparr>)\<rparr>;
                       s3 = send peer (RoomJoined (getProp payload ''room'') (hostId roomData)) s2
                   in case peers s3 (hostId roomData) of
                        Some hostPeer \<Rightarrow>
                          Inr (send hostPeer (PeerJoined (peer_id (heap s3 peer))) s3)
                      | None \<Rightarrow> Inr s3)
              | None \<Rightarrow>
                  (let newRoom = \<lparr>hostId = peer_id (heap s peer), room_peers = []\<rparr>;
                       s1 = s\<lparr>rooms := (rooms s)(key \<mapsto> newRoom)\<rparr>;
                       s2 = s1\<lparr>heap := (heap s1)(peer :=
                                 (heap s1 peer)\<lparr>roomKey := Some key, isHost := True\<rparr>)\<rparr>
                   in Inr (send peer (RoomCreated (getProp payload ''room'')) s2)))))"

text \<open>
  \<^verbatim>\<open>this.peers.get(targetId)\<close> for a target read from a message: the keys of the
  map are strings, so only a string can be found.
\<close>

fun peersGet :: "Pearl2PServer \<Rightarrow> jsval \<Rightarrow> nat option" where
  "peersGet s (JStr targetId) = peers s targetId"
| "peersGet s v = None"

text \<open>\<^verbatim>\<open>routeSignal(sender, data)\<close>.\<close>

definition routeSignal :: "nat \<Rightarrow> jsval \<Rightarrow> Pearl2PServer \<Rightarrow> Pearl2PServer" where
  "routeSignal sender data s =
     (case peersGet s (getProp data ''target'') of
        Some targetPeer \<Rightarrow>
          send targetPeer (Signal (peer_id (heap s sender)) (getProp data ''payload'')) s
      | None \<Rightarrow> sendError sender 404 ''Peer alvo desconectado.'' s)"

text \<open>\<^verbatim>\<open>routeData(sender, data)\<close>: there is no \<^verbatim>\<open>else\<close> branch.\<close>

definition routeData :: "nat \<Rightarrow> jsval \<Rightarrow> Pearl2PServer \<Rightarrow> Pearl2PServer" where
  "routeData sender data s =
     (case peersGet s (getProp data ''target'') of
        Some targetPeer \<Rightarrow>
          send targetPeer (Data (peer_id (heap s sender)) (getProp data ''payload'')) s
      | None \<Rightarrow> s)"

text \<open>
  \<^verbatim>\<open>handleMessage(sender, messageData)\<close>.  \<open>parsed\<close> is the result of
  \<^verbatim>\<open>JSON.parse(messageData)\<close>, \<open>None\<close> when it throws.  \<^verbatim>\<open>data.type\<close> throws on
  \<^verbatim>\<open>null\<close>.  Whatever is thrown inside \<^verbatim>\<open>try\<close> is caught and logged; what
  \<^verbatim>\<open>handleJoinRoom\<close> throws, it throws before its first write, so the state is
  the one the handler started from.
\<close>

definition handleMessage :: "nat \<Rightarrow> jsval option \<Rightarrow> Pearl2PServer \<Rightarrow> Pearl2PServer" where
  "handleMessage sender parsed s =
     (case parsed of
        None \<Rightarrow> s
      | Some data \<Rightarrow>
          if data = JNull then s
          else if getProp data ''type'' = JStr ''join-room'' then
            (case handleJoinRoom sender (getProp data ''payload'') s of
               Inl e \<Rightarrow> s
             | Inr s' \<Rightarrow> s')
          else if getProp data ''type'' = JStr ''signal'' then routeSignal sender data s
          else if getProp data ''type'' = JStr ''data'' then routeData sender data s
          else s)"

text \<open>
  The loop body of the host branch of \<^verbatim>\<open>handleDisconnect\<close>:
  \<^verbatim>\<open>roomData.peers.forEach(clientId => ...)\<close>.
\<close>

definition notifyClient :: "string \<Rightarrow> Pearl2PServer \<Rightarrow> Pearl2PServer" where
  "notifyClient clientId s =
     (case peers s clientId of
        Some clientPeer \<Rightarrow>
          (let s1 = send clientPeer HostDisconnected s
           in s1\<lparr>heap := (heap s1)(clientPeer := (heap s1 clientPeer)\<lparr>roomKey := None\<rparr>)\<rparr>)
      | None \<Rightarrow> s)"

text \<open>
  \<^verbatim>\<open>this.rooms.has(k)\<close> / \<^verbatim>\<open>this.rooms.delete(k)\<close> for \<^verbatim>\<open>k = peer.roomKey\<close>, which is
  \<^verbatim>\<open>null\<close> or a string; \<^verbatim>\<open>null\<close> is no key of the map.
\<close>

definition roomsDelete :: "string option \<Rightarrow> Pearl2PServer \<Rightarrow> Pearl2PServer" where
  "roomsDelete k s = (case k of None \<Rightarrow> s | Some key \<Rightarrow> s\<lparr>rooms := (rooms s)(key := None)\<rparr>)"

text \<open>
  \<^verbatim>\<open>handleDisconnect(peer)\<close>.  The guard \<^verbatim>\<open>peer.roomKey && ...\<close> is false for
  \<^verbatim>\<open>null\<close> and for the empty string.  \<^verbatim>\<open>Set.delete\<close> is \<open>removeAll\<close>.  The host
  branch reads \<^verbatim>\<open>peer.roomKey\<close> again after the loop.
\<close>

definition handleDisconnect :: "nat \<Rightarrow> Pearl2PServer \<Rightarrow> Pearl2PServer" where
  "handleDisconnect peer s =
     (let s1 = s\<lparr>peers := (peers s)(peer_id (heap s peer) := None)\<rparr>
      in case roomKey (heap s1 peer) of
           None \<Rightarrow> s1
         | Some key \<Rightarrow>
             if key = [] then s1
             else
               (case rooms s1 key of
                  None \<Rightarrow> s1
                | Some roomData \<Rightarrow>
                    if isHost (heap s1 peer) then
                      (let s2 = fold notifyClient (room_peers roomData) s1
                       in roomsDelete (roomKey (heap s2 peer)) s2)
                    else
                      (let s2 = s1\<lparr>rooms := (rooms s1)(key \<mapsto>
                                    roomData\<lparr>room_peers :=
                                      removeAll (peer_id (heap s1 peer)) (room_peers roomData)\<rparr>)\<rparr>
                       in case peers s2 (hostId roomData) of
                            Some hostPeer \<Rightarrow> send hostPeer (PeerLeft (peer_id (heap s2 peer))) s2
                          | None \<Rightarrow> s2)))"

text \<open>The server as the constructor leaves it: no peer, no room, nothing sent.\<close>

definition initial :: Pearl2PServer where
  "initial =
     \<lparr>heap = (\<lambda>r. \<lparr>socket = CLOSED, peer_id = [], isAlive = False,
                    roomKey = None, isHost = False\<rparr>),
      nextRef = 0, peers = Map.empty, rooms = Map.empty, sent = []\<rparr>"

section \<open>Events, and the notions the properties are stated with\<close>

text \<open>
  What \<^verbatim>\<open>send\<close> appends to the log for peer \<open>a\<close> in state \<open>s\<close>: the frame on an open
  socket, nothing otherwise.
\<close>

definition delivered :: "Pearl2PServer \<Rightarrow> nat \<Rightarrow> message \<Rightarrow> (nat \<times> message) list" where
  "delivered s a m = (if socket (heap s a) = OPEN then [(a, m)] else [])"

text \<open>
  The events the server reacts to, as \<^verbatim>\<open>init\<close> and \<^verbatim>\<open>handleConnection\<close> wire them:
  \<^verbatim>\<open>wss.on('connection')\<close>, \<^verbatim>\<open>socket.on('message')\<close>, \<^verbatim>\<open>socket.on('close')\<close>.
\<close>

datatype event =
    Connection readyState "8 word list"
  | Message nat "jsval option"
  | Close nat

fun onEvent :: "event \<Rightarrow> Pearl2PServer \<Rightarrow> Pearl2PServer" where
  "onEvent (Connection sock randomBytes) s = handleConnection sock randomBytes s"
| "onEvent (Message peer parsed) s = handleMessage peer parsed s"
| "onEvent (Close peer) s = handleDisconnect peer s"

text \<open>A \<^verbatim>\<open>join-room\<close> message with the given payload, after parsing.\<close>

definition joinRoomMsg :: "jsval \<Rightarrow> jsval option" where
  "joinRoomMsg payload = Some (JObj [(''type'', JStr ''join-room''), (''payload'', payload)])"

text \<open>A sequence of \<^verbatim>\<open>join-room\<close> requests, each from a peer, handled in order.\<close>

definition joinAll :: "(nat \<times> jsval) list \<Rightarrow> Pearl2PServer \<Rightarrow> Pearl2PServer" where
  "joinAll reqs s = fold (\<lambda>(peer, payload). handleMessage peer (joinRoomMsg payload)) reqs s"

text \<open>
  What the join of \<open>req = (peer, payload)\<close> to an existing room whose host identity is
  \<open>hid\<close> appends to the log: \<^verbatim>\<open>room-joined\<close> with \<open>hid\<close> for the requester, then
  \<^verbatim>\<open>peer-joined\<close> for the host if \<open>hid\<close> is registered.
\<close>

definition joined :: "Pearl2PServer \<Rightarrow> string \<Rightarrow> nat \<times> jsval \<Rightarrow> (nat \<times> message) list" where
  "joined s hid req =
     delivered s (fst req) (RoomJoined (getProp (snd req) ''room'') hid)
       @ (case peers s hid of
            None \<Rightarrow> []
          | Some hostPeer \<Rightarrow> delivered s hostPeer (PeerJoined (peer_id (heap s (fst req)))))"

text \<open>
  Two properties of every state the server reaches.  In the registry, the object
  stored under an identity has that identity and was allocated; and the list that
  stands for a room's \<^verbatim>\<open>Set\<close> has no element twice.
\<close>

definition registry_ok :: "Pearl2PServer \<Rightarrow> bool" where
  "registry_ok s = (\<forall>i a. peers s i = Some a \<longrightarrow> a < nextRef s \<and> peer_id (heap s a) = i)"

definition rooms_ok :: "Pearl2PServer \<Rightarrow> bool" where
  "rooms_ok s = (\<forall>k r. rooms s k = Some r \<longrightarrow> distinct (room_peers r))"

text \<open>
  The guard of the room part of \<^verbatim>\<open>handleDisconnect\<close>:
  \<^verbatim>\<open>peer.roomKey && this.rooms.has(peer.roomKey)\<close>.
\<close>

definition inRoom :: "Pearl2PServer \<Rightarrow> nat \<Rightarrow> bool" where
  "inRoom s peer =
     (case roomKey (heap s peer) of
        None \<Rightarrow> False
      | Some key \<Rightarrow> key \<noteq> [] \<and> rooms s key \<noteq> None)"

text \<open>
  What the member branch of \<^verbatim>\<open>handleDisconnect\<close> sends for \<open>peer\<close> in state \<open>s\<close>:
  \<^verbatim>\<open>peer-left\<close> to the room's host, if the host identity is registered once the
  peer's own identity is removed; nothing for a host or a peer without a room.
\<close>

definition peerLeftAgain :: "Pearl2PServer \<Rightarrow> nat \<Rightarrow> (nat \<times> message) list" where
  "peerLeftAgain s peer =
     (case roomKey (heap s peer) of
        None \<Rightarrow> []
      | Some key \<Rightarrow>
          (case rooms s key of
             None \<Rightarrow> []
           | Some roomData \<Rightarrow>
               if key = [] \<or> isHost (heap s peer) then []
               else (case ((peers s)(peer_id (heap s peer) := None)) (hostId roomData) of
                       None \<Rightarrow> []
                     | Some hostPeer \<Rightarrow>
                         delivered s hostPeer (PeerLeft (peer_id (heap s peer))))))"

text \<open>No identity is in the member set of two rooms of the directory.\<close>

definition memberOfAtMostOne :: "Pearl2PServer \<Rightarrow> bool" where
  "memberOfAtMostOne s =
     (\<forall>k1 k2 r1 r2 i. rooms s k1 = Some r1 \<and> rooms s k2 = Some r2
        \<and> i \<in> set (room_peers r1) \<and> i \<in> set (room_peers r2) \<longrightarrow> k1 = k2)"

section \<open>Sending\<close>

lemma send_eq: "send a m s = s\<lparr>sent := sent s @ delivered s a m\<rparr>"
  by (simp add: send_def delivered_def)

lemma heap_send [simp]: "heap (send a m s) = heap s"
  by (simp add: send_def)

lemma peers_send [simp]: "peers (send a m s) = peers s"
  by (simp add: send_def)

lemma rooms_send [simp]: "rooms (send a m s) = rooms s"
  by (simp add: send_def)

lemma nextRef_send [simp]: "nextRef (send a m s) = nextRef s"
  by (simp add: send_def)

lemma sent_send [simp]: "sent (send a m s) = sent s @ delivered s a m"
  by (simp add: send_def delivered_def)

lemma delivered_cong:
  "socket (heap s' a) = socket (heap s a) \<Longrightarrow> delivered s' a m = delivered s a m"
  by (simp add: delivered_def)

section \<open>The loop of the host branch, and what each handler leaves alone\<close>


lemma notifyClient_frame [simp]:
  "peers (notifyClient c s) = peers s" "rooms (notifyClient c s) = rooms s"
  "nextRef (notifyClient c s) = nextRef s"
  by (simp_all add: notifyClient_def Let_def split: option.split)

lemma notifyClient_fields [simp]:
  "socket (heap (notifyClient c s) a) = socket (heap s a)"
  "peer_id (heap (notifyClient c s) a) = peer_id (heap s a)"
  "isHost (heap (notifyClient c s) a) = isHost (heap s a)"
  "isAlive (heap (notifyClient c s) a) = isAlive (heap s a)"
  by (simp_all add: notifyClient_def Let_def split: option.split)

lemma roomKey_notifyClient:
  "roomKey (heap (notifyClient c s) a) = (if peers s c = Some a then None else roomKey (heap s a))"
  by (auto simp: notifyClient_def Let_def split: option.split)

lemma sent_notifyClient:
  "sent (notifyClient c s) =
     sent s @ (case peers s c of None \<Rightarrow> [] | Some a \<Rightarrow> delivered s a HostDisconnected)"
  by (simp add: notifyClient_def Let_def split: option.split)

lemma fold_notifyClient_frame [simp]:
  "peers (fold notifyClient cs s) = peers s" "rooms (fold notifyClient cs s) = rooms s"
  "nextRef (fold notifyClient cs s) = nextRef s"
  by (induction cs arbitrary: s; simp)+

lemma fold_notifyClient_fields [simp]:
  "socket (heap (fold notifyClient cs s) a) = socket (heap s a)"
  "peer_id (heap (fold notifyClient cs s) a) = peer_id (heap s a)"
  "isHost (heap (fold notifyClient cs s) a) = isHost (heap s a)"
  "isAlive (heap (fold notifyClient cs s) a) = isAlive (heap s a)"
  by (induction cs arbitrary: s; simp)+

lemma roomKey_fold_notifyClient:
  "roomKey (heap (fold notifyClient cs s) a) =
     (if \<exists>c \<in> set cs. peers s c = Some a then None else roomKey (heap s a))"
  by (induction cs arbitrary: s) (auto simp: roomKey_notifyClient)

lemma sent_fold_notifyClient:
  "sent (fold notifyClient cs s) =
     sent s @ concat (map (\<lambda>c. case peers s c of None \<Rightarrow> []
                                 | Some a \<Rightarrow> delivered s a HostDisconnected) cs)"
proof (induction cs arbitrary: s)
  case Nil
  then show ?case by simp
next
  case (Cons c cs)
  have d: "\<And>a. delivered (notifyClient c s) a HostDisconnected = delivered s a HostDisconnected"
    by (simp add: delivered_def)
  show ?case
    by (simp add: Cons.IH sent_notifyClient d cong: option.case_cong)
qed

lemma host_disconnect_eq:
  assumes "roomKey (heap s peer) = Some key" and "key \<noteq> []"
    and "rooms s key = Some roomData" and "isHost (heap s peer)"
  shows "handleDisconnect peer s =
           (let s1 = s\<lparr>peers := (peers s)(peer_id (heap s peer) := None)\<rparr>;
                s2 = fold notifyClient (room_peers roomData) s1
            in roomsDelete (roomKey (heap s2 peer)) s2)"
  using assms by (simp add: handleDisconnect_def Let_def)





lemma set_delivered: "(a, m) \<in> set (delivered s b m') \<Longrightarrow> socket (heap s a) = OPEN"
  by (auto simp: delivered_def split: if_splits)

lemma handleJoinRoom_frame:
  assumes "handleJoinRoom peer payload s = Inr s'"
  shows "peers s' = peers s" and "nextRef s' = nextRef s"
    and "peer_id (heap s' a) = peer_id (heap s a)"
    and "socket (heap s' a) = socket (heap s a)"
  using assms
  by (auto simp: handleJoinRoom_def sendError_def Let_def
      split: if_splits sum.splits option.splits)

lemma handleJoinRoom_sent:
  assumes "handleJoinRoom peer payload s = Inr s'"
  shows "\<exists>new. sent s' = sent s @ new \<and> (\<forall>(a, m) \<in> set new. socket (heap s a) = OPEN)"
  using assms
  by (auto simp: handleJoinRoom_def sendError_def Let_def delivered_def
      split: if_splits sum.splits option.splits)

lemma handleMessage_frame:
  shows "peers (handleMessage peer parsed s) = peers s"
    and "nextRef (handleMessage peer parsed s) = nextRef s"
    and "peer_id (heap (handleMessage peer parsed s) a) = peer_id (heap s a)"
    and "socket (heap (handleMessage peer parsed s) a) = socket (heap s a)"
  by (auto simp: handleMessage_def routeSignal_def routeData_def sendError_def
      handleJoinRoom_frame split: option.splits sum.splits)

lemma handleMessage_sent:
  "\<exists>new. sent (handleMessage peer parsed s) = sent s @ new
         \<and> (\<forall>(a, m) \<in> set new. socket (heap s a) = OPEN)"
proof (cases "\<exists>data. parsed = Some data \<and> data \<noteq> JNull
                \<and> getProp data ''type'' = JStr ''join-room''")
  case True
  then obtain data where d: "parsed = Some data" "data \<noteq> JNull"
      "getProp data ''type'' = JStr ''join-room''" by blast
  show ?thesis
  proof (cases "handleJoinRoom peer (getProp data ''payload'') s")
    case (Inl e)
    then show ?thesis using d by (simp add: handleMessage_def)
  next
    case (Inr s')
    then show ?thesis using d handleJoinRoom_sent [OF Inr] by (simp add: handleMessage_def)
  qed
next
  case False
  then show ?thesis
    by (auto simp: handleMessage_def routeSignal_def routeData_def sendError_def delivered_def
        split: option.splits)
qed

lemma handleDisconnect_frame:
  shows "nextRef (handleDisconnect peer s) = nextRef s"
    and "peer_id (heap (handleDisconnect peer s) a) = peer_id (heap s a)"
    and "socket (heap (handleDisconnect peer s) a) = socket (heap s a)"
  by (auto simp: handleDisconnect_def roomsDelete_def Let_def split: option.splits)

lemma peers_handleDisconnect:
  "peers (handleDisconnect peer s) = (peers s)(peer_id (heap s peer) := None)"
  by (auto simp: handleDisconnect_def roomsDelete_def Let_def split: option.splits)

lemma concat_delivered_open:
  "(a, m) \<in> set (concat (map (\<lambda>c. case f c of None \<Rightarrow> [] | Some b \<Rightarrow> delivered s b m') cs))
     \<Longrightarrow> socket (heap s a) = OPEN"
  by (auto simp: delivered_def split: option.splits if_splits)

lemma handleDisconnect_sent:
  "\<exists>new. sent (handleDisconnect peer s) = sent s @ new
         \<and> (\<forall>(a, m) \<in> set new. socket (heap s a) = OPEN)"
  by (auto simp: handleDisconnect_def roomsDelete_def Let_def sent_fold_notifyClient
      delivered_def split: option.splits if_splits)

section \<open>Invariants\<close>



lemma registry_ok_handleConnection:
  assumes "registry_ok s"
  shows "registry_ok (handleConnection sock randomBytes s)"
  using assms
  by (auto simp: registry_ok_def handleConnection_def Let_def less_Suc_eq split: if_splits)

lemma registry_ok_handleMessage:
  assumes "registry_ok s"
  shows "registry_ok (handleMessage peer parsed s)"
  using assms by (simp add: registry_ok_def handleMessage_frame)

lemma registry_ok_handleDisconnect:
  assumes "registry_ok s"
  shows "registry_ok (handleDisconnect peer s)"
  using assms
  by (simp add: registry_ok_def handleDisconnect_frame peers_handleDisconnect)

lemma registry_ok_onEvent: "registry_ok s \<Longrightarrow> registry_ok (onEvent e s)"
  by (cases e)
    (simp_all add: registry_ok_handleConnection registry_ok_handleMessage
      registry_ok_handleDisconnect)

lemma distinct_setAdd: "distinct xs \<Longrightarrow> distinct (setAdd x xs)"
  by (simp add: setAdd_def)

lemma rooms_ok_handleConnection:
  "rooms_ok s \<Longrightarrow> rooms_ok (handleConnection sock randomBytes s)"
  by (simp add: rooms_ok_def handleConnection_def Let_def)

lemma rooms_ok_handleJoinRoom:
  assumes "rooms_ok s" and "handleJoinRoom peer payload s = Inr s'"
  shows "rooms_ok s'"
  using assms
  by (auto simp: rooms_ok_def handleJoinRoom_def sendError_def Let_def distinct_setAdd
      split: if_splits sum.splits option.splits)

lemma rooms_ok_handleMessage:
  assumes "rooms_ok s"
  shows "rooms_ok (handleMessage peer parsed s)"
  using assms
  by (auto simp: handleMessage_def routeSignal_def routeData_def sendError_def rooms_ok_def
      dest: rooms_ok_handleJoinRoom [unfolded rooms_ok_def, rotated]
      split: option.splits sum.splits)

lemma rooms_ok_handleDisconnect:
  assumes "rooms_ok s"
  shows "rooms_ok (handleDisconnect peer s)"
  using assms
  by (auto simp: rooms_ok_def handleDisconnect_def roomsDelete_def Let_def distinct_removeAll
      split: option.splits if_splits)

lemma rooms_ok_onEvent: "rooms_ok s \<Longrightarrow> rooms_ok (onEvent e s)"
  by (cases e)
    (simp_all add: rooms_ok_handleConnection rooms_ok_handleMessage rooms_ok_handleDisconnect)



section \<open>Validation of a join request\<close>

text \<open>
  C9.  A \<^verbatim>\<open>join-room\<close> whose payload is missing (\<^verbatim>\<open>undefined\<close>, \<^verbatim>\<open>null\<close>), or whose
  \<^verbatim>\<open>project\<close> or \<^verbatim>\<open>room\<close> is absent (\<^verbatim>\<open>undefined\<close>) or empty (the empty string),
  or falsy in any other way, is answered with one \<^verbatim>\<open>error\<close> of code 400 for the
  requester (\<open>delivered\<close>: handed to \<^verbatim>\<open>send\<close>, which puts it on the requester's socket
  when that is open) and changes nothing else: the store of peers (so the
  requester's \<^verbatim>\<open>roomKey\<close> and \<^verbatim>\<open>isHost\<close>), the registry and the rooms are the ones
  before, and no room is created.
\<close>

theorem join_incomplete_rejected:
  assumes "\<not> truthy payload \<or> \<not> truthy (getProp payload ''project'')
           \<or> \<not> truthy (getProp payload ''room'')"
  shows "\<exists>s'. handleJoinRoom peer payload s = Inr s'
           \<and> sent s' = sent s @ delivered s peer (Error 400 ''Dados de projeto/sala incompletos.'')
           \<and> heap s' = heap s \<and> peers s' = peers s \<and> rooms s' = rooms s
           \<and> nextRef s' = nextRef s"
  using assms by (auto simp: handleJoinRoom_def sendError_def)

theorem join_incomplete_rejected_witness:
  "handleJoinRoom 0 (JObj [(''project'', JStr ''game''), (''room'', JStr [])])
       (handleConnection OPEN [0, 0, 0, 1] initial)
     = Inr ((handleConnection OPEN [0, 0, 0, 1] initial)
              \<lparr>sent := [(0, Welcome ''00000001''),
                        (0, Error 400 ''Dados de projeto/sala incompletos.'')]\<rparr>)"
proof -
  let ?s = "handleConnection OPEN [0, 0, 0, 1] initial"
  let ?p = "JObj [(''project'', JStr ''game''), (''room'', JStr [])]"
  have "\<not> truthy ?p \<or> \<not> truthy (getProp ?p ''project'') \<or> \<not> truthy (getProp ?p ''room'')"
    by simp
  from join_incomplete_rejected [OF this, of 0 ?s]
  obtain s' where s': "handleJoinRoom 0 ?p ?s = Inr s'"
      "sent s' = sent ?s @ delivered ?s 0 (Error 400 ''Dados de projeto/sala incompletos.'')"
      "heap s' = heap ?s" "peers s' = peers ?s" "rooms s' = rooms ?s" "nextRef s' = nextRef ?s"
    by blast
  have "sent s' = [(0, Welcome ''00000001''),
                   (0, Error 400 ''Dados de projeto/sala incompletos.'')]"
    using s'(2)
    by (simp add: handleConnection_def initial_def generateId_def hexByte_def hexDigit_def
        delivered_def Let_def)
  with s' show ?thesis by simp
qed

section \<open>Joining a room\<close>

lemma handleMessage_join:
  "handleMessage peer (joinRoomMsg payload) s =
     (case handleJoinRoom peer payload s of Inl e \<Rightarrow> s | Inr s' \<Rightarrow> s')"
  by (simp add: handleMessage_def joinRoomMsg_def)

lemma join_new:
  assumes "truthy payload" and "truthy (getProp payload ''project'')"
    and "truthy (getProp payload ''room'')" and "roomKeyOf payload = Inr key"
    and "rooms s key = None"
  shows "handleMessage peer (joinRoomMsg payload) s =
           s\<lparr>heap := (heap s)(peer := (heap s peer)\<lparr>roomKey := Some key, isHost := True\<rparr>),
             rooms := (rooms s)(key \<mapsto> \<lparr>hostId = peer_id (heap s peer), room_peers = []\<rparr>),
             sent := sent s @ delivered s peer (RoomCreated (getProp payload ''room''))\<rparr>"
  using assms
  by (simp add: handleMessage_join handleJoinRoom_def Let_def send_def delivered_def)

lemma join_existing:
  assumes "truthy payload" and "truthy (getProp payload ''project'')"
    and "truthy (getProp payload ''room'')" and "roomKeyOf payload = Inr key"
    and "rooms s key = Some r"
  shows "handleMessage peer (joinRoomMsg payload) s =
           s\<lparr>heap := (heap s)(peer := (heap s peer)\<lparr>roomKey := Some key, isHost := False\<rparr>),
             rooms := (rooms s)(key \<mapsto>
                        r\<lparr>room_peers := setAdd (peer_id (heap s peer)) (room_peers r)\<rparr>),
             sent := sent s @ delivered s peer (RoomJoined (getProp payload ''room'') (hostId r))
                      @ (case peers s (hostId r) of
                           None \<Rightarrow> []
                         | Some hostPeer \<Rightarrow> delivered s hostPeer (PeerJoined (peer_id (heap s peer))))\<rparr>"
  using assms
  by (simp add: handleMessage_join handleJoinRoom_def Let_def send_def delivered_def
      split: option.split)

lemma joined_cong:
  assumes "peers t = peers s" and "\<And>a. socket (heap t a) = socket (heap s a)"
    and "\<And>a. peer_id (heap t a) = peer_id (heap s a)"
  shows "joined t hid = joined s hid"
  using assms by (auto simp: joined_def delivered_def fun_eq_iff split: option.splits)

lemma joinAll_Cons:
  "joinAll ((p, pl) # reqs) s = joinAll reqs (handleMessage p (joinRoomMsg pl) s)"
  by (simp add: joinAll_def)

lemma joinAll_existing:
  assumes "\<forall>(p, pl) \<in> set reqs. truthy pl \<and> truthy (getProp pl ''project'')
             \<and> truthy (getProp pl ''room'') \<and> roomKeyOf pl = Inr key"
    and "rooms t key = Some r"
  shows "sent (joinAll reqs t) = sent t @ concat (map (joined t (hostId r)) reqs)
       \<and> (\<exists>r'. rooms (joinAll reqs t) key = Some r' \<and> hostId r' = hostId r
              \<and> set (room_peers r') = set (room_peers r) \<union> (\<lambda>req. peer_id (heap t (fst req))) ` set reqs)
       \<and> peers (joinAll reqs t) = peers t
       \<and> heap (joinAll reqs t) =
           (\<lambda>a. if a \<in> fst ` set reqs then (heap t a)\<lparr>roomKey := Some key, isHost := False\<rparr>
                 else heap t a)"
  using assms
proof (induction reqs arbitrary: t r)
  case Nil
  then show ?case by (simp add: joinAll_def)
next
  case (Cons req reqs)
  obtain p pl where req: "req = (p, pl)" by (cases req)
  let ?t = "handleMessage p (joinRoomMsg pl) t"
  let ?r = "r\<lparr>room_peers := setAdd (peer_id (heap t p)) (room_peers r)\<rparr>"
  have v: "truthy pl" "truthy (getProp pl ''project'')" "truthy (getProp pl ''room'')"
      "roomKeyOf pl = Inr key"
    using Cons.prems(1) req by auto
  have step: "?t = t\<lparr>heap := (heap t)(p := (heap t p)\<lparr>roomKey := Some key, isHost := False\<rparr>),
             rooms := (rooms t)(key \<mapsto> ?r),
             sent := sent t @ joined t (hostId r) req\<rparr>"
    using join_existing [OF v Cons.prems(2), of p]
    by (simp add: joined_def req cong: option.case_cong)
  have rest: "\<forall>(p, pl) \<in> set reqs. truthy pl \<and> truthy (getProp pl ''project'')
             \<and> truthy (getProp pl ''room'') \<and> roomKeyOf pl = Inr key"
    using Cons.prems(1) by simp
  have rm: "rooms ?t key = Some ?r" by (simp add: step)
  have j: "joined ?t (hostId r) = joined t (hostId r)"
    by (rule joined_cong) (simp_all add: step)
  have ids: "\<And>a. peer_id (heap ?t a) = peer_id (heap t a)"
    by (simp add: step)
  from Cons.IH [OF rest rm]
  have ih: "sent (joinAll reqs ?t) = sent ?t @ concat (map (joined t (hostId r)) reqs)"
    "\<exists>r'. rooms (joinAll reqs ?t) key = Some r' \<and> hostId r' = hostId r
        \<and> set (room_peers r') = set (room_peers ?r) \<union> (\<lambda>req. peer_id (heap t (fst req))) ` set reqs"
    "peers (joinAll reqs ?t) = peers ?t"
    "heap (joinAll reqs ?t) =
           (\<lambda>a. if a \<in> fst ` set reqs then (heap ?t a)\<lparr>roomKey := Some key, isHost := False\<rparr>
                 else heap ?t a)"
    by (simp_all add: j ids)
  have a: "sent (joinAll (req # reqs) t) = sent t @ concat (map (joined t (hostId r)) (req # reqs))"
    using ih(1) by (simp add: req joinAll_Cons step)
  have b: "\<exists>r'. rooms (joinAll (req # reqs) t) key = Some r' \<and> hostId r' = hostId r
        \<and> set (room_peers r') = set (room_peers r)
              \<union> (\<lambda>req. peer_id (heap t (fst req))) ` set (req # reqs)"
    using ih(2) by (auto simp: req joinAll_Cons setAdd_def split: if_splits)
  have c: "peers (joinAll (req # reqs) t) = peers t"
    using ih(3) by (simp add: req joinAll_Cons step)
  have d: "heap (joinAll (req # reqs) t) =
           (\<lambda>a. if a \<in> fst ` set (req # reqs)
                 then (heap t a)\<lparr>roomKey := Some key, isHost := False\<rparr> else heap t a)"
    using ih(4) by (auto simp: req joinAll_Cons step fun_eq_iff)
  from a b c d show ?case by blast
qed

text \<open>
  C1.  Requests \<^verbatim>\<open>join-room\<close> that are all complete and all compute the same room
  key are handled one after the other, starting where no room has that key.  The
  first requester is sent \<^verbatim>\<open>room-created\<close> (role host), its identity becomes the
  room's \<^verbatim>\<open>hostId\<close> and stays it, and it is marked host of the room.  Every later
  requester is sent \<^verbatim>\<open>room-joined\<close> (role client) with that identity as
  \<^verbatim>\<open>hostId\<close> (followed by \<^verbatim>\<open>peer-joined\<close> to the host when that identity is
  registered), becomes a member and is marked client.  No other frame is sent, so
  \<^verbatim>\<open>room-created\<close> is sent once.  Here and below a message is sent to a peer by
  \<^verbatim>\<open>send\<close>, and \<open>delivered\<close> is what \<^verbatim>\<open>send\<close> does with it: the frame on an open
  socket, nothing otherwise (C10).
\<close>

theorem first_join_hosts:
  assumes "\<forall>(p, pl) \<in> set ((peer, payload) # rest).
             truthy pl \<and> truthy (getProp pl ''project'') \<and> truthy (getProp pl ''room'')
             \<and> roomKeyOf pl = Inr key"
    and "rooms s key = None"
  shows "sent (joinAll ((peer, payload) # rest) s) =
           sent s @ delivered s peer (RoomCreated (getProp payload ''room''))
             @ concat (map (joined s (peer_id (heap s peer))) rest)
       \<and> (\<exists>r. rooms (joinAll ((peer, payload) # rest) s) key = Some r
              \<and> hostId r = peer_id (heap s peer)
              \<and> set (room_peers r) = (\<lambda>req. peer_id (heap s (fst req))) ` set rest)
       \<and> heap (joinAll [(peer, payload)] s) peer =
           (heap s peer)\<lparr>roomKey := Some key, isHost := True\<rparr>
       \<and> (\<forall>(p, pl) \<in> set rest.
             heap (joinAll ((peer, payload) # rest) s) p =
               (heap s p)\<lparr>roomKey := Some key, isHost := False\<rparr>)"
proof -
  let ?t = "handleMessage peer (joinRoomMsg payload) s"
  let ?r = "\<lparr>hostId = peer_id (heap s peer), room_peers = []\<rparr>"
  have v: "truthy payload" "truthy (getProp payload ''project'')"
      "truthy (getProp payload ''room'')" "roomKeyOf payload = Inr key"
    using assms(1) by auto
  have step: "?t = s\<lparr>heap := (heap s)(peer := (heap s peer)\<lparr>roomKey := Some key, isHost := True\<rparr>),
             rooms := (rooms s)(key \<mapsto> ?r),
             sent := sent s @ delivered s peer (RoomCreated (getProp payload ''room''))\<rparr>"
    by (rule join_new [OF v assms(2)])
  have rest: "\<forall>(p, pl) \<in> set rest. truthy pl \<and> truthy (getProp pl ''project'')
             \<and> truthy (getProp pl ''room'') \<and> roomKeyOf pl = Inr key"
    using assms(1) by simp
  have rm: "rooms ?t key = Some ?r" by (simp add: step)
  have j: "joined ?t (peer_id (heap s peer)) = joined s (peer_id (heap s peer))"
    by (rule joined_cong) (simp_all add: step)
  have ids: "\<And>a. peer_id (heap ?t a) = peer_id (heap s a)"
    by (simp add: step)
  from joinAll_existing [OF rest rm]
  have ih: "sent (joinAll rest ?t) = sent ?t @ concat (map (joined s (peer_id (heap s peer))) rest)"
    "\<exists>r'. rooms (joinAll rest ?t) key = Some r' \<and> hostId r' = peer_id (heap s peer)
        \<and> set (room_peers r') = (\<lambda>req. peer_id (heap s (fst req))) ` set rest"
    "heap (joinAll rest ?t) =
           (\<lambda>a. if a \<in> fst ` set rest then (heap ?t a)\<lparr>roomKey := Some key, isHost := False\<rparr>
                 else heap ?t a)"
    by (simp_all add: j ids)
  have a: "sent (joinAll ((peer, payload) # rest) s) =
           sent s @ delivered s peer (RoomCreated (getProp payload ''room''))
             @ concat (map (joined s (peer_id (heap s peer))) rest)"
    using ih(1) by (simp add: joinAll_Cons step)
  have b: "\<exists>r. rooms (joinAll ((peer, payload) # rest) s) key = Some r
              \<and> hostId r = peer_id (heap s peer)
              \<and> set (room_peers r) = (\<lambda>req. peer_id (heap s (fst req))) ` set rest"
    using ih(2) by (simp add: joinAll_Cons)
  have c: "heap (joinAll [(peer, payload)] s) peer =
           (heap s peer)\<lparr>roomKey := Some key, isHost := True\<rparr>"
    by (simp add: joinAll_def step)
  have d: "\<forall>(p, pl) \<in> set rest.
             heap (joinAll ((peer, payload) # rest) s) p =
               (heap s p)\<lparr>roomKey := Some key, isHost := False\<rparr>"
  proof (clarify)
    fix p pl assume "(p, pl) \<in> set rest"
    then have "p \<in> fst ` set rest" by force
    then show "heap (joinAll ((peer, payload) # rest) s) p =
               (heap s p)\<lparr>roomKey := Some key, isHost := False\<rparr>"
      by (simp add: joinAll_Cons ih(3)) (simp add: step)
  qed
  from a b c d show ?thesis by blast
qed

theorem first_join_hosts_witness:
  "sent (joinAll
       [(0, JObj [(''project'', JStr ''game''), (''room'', JStr ''boss'')]),
        (1, JObj [(''project'', JStr ''game''), (''room'', JStr ''boss'')]),
        (2, JObj [(''project'', JStr ''game''), (''instance'', JStr ''default''),
                  (''room'', JStr ''boss'')])]
       (handleConnection OPEN [0, 0, 0, 3]
         (handleConnection OPEN [0, 0, 0, 2] (handleConnection OPEN [0, 0, 0, 1] initial))))
     = [(0, Welcome ''00000001''), (1, Welcome ''00000002''), (2, Welcome ''00000003''),
        (0, RoomCreated (JStr ''boss'')),
        (1, RoomJoined (JStr ''boss'') ''00000001''), (0, PeerJoined ''00000002''),
        (2, RoomJoined (JStr ''boss'') ''00000001''), (0, PeerJoined ''00000003'')]"
proof -
  let ?s = "handleConnection OPEN [0, 0, 0, 3]
         (handleConnection OPEN [0, 0, 0, 2] (handleConnection OPEN [0, 0, 0, 1] initial))"
  let ?p = "JObj [(''project'', JStr ''game''), (''room'', JStr ''boss'')]"
  let ?q = "JObj [(''project'', JStr ''game''), (''instance'', JStr ''default''),
                  (''room'', JStr ''boss'')]"
  have v: "\<forall>(p, pl) \<in> set ((0, ?p) # [(1, ?p), (2, ?q)]).
             truthy pl \<and> truthy (getProp pl ''project'') \<and> truthy (getProp pl ''room'')
             \<and> roomKeyOf pl = Inr ''game#default#boss''"
    by (simp add: roomKeyOf_def)
  have e: "rooms ?s ''game#default#boss'' = None"
    by (simp add: handleConnection_def initial_def Let_def)
  have f: "sent ?s = [(0, Welcome ''00000001''), (1, Welcome ''00000002''), (2, Welcome ''00000003'')]"
    "peer_id (heap ?s 0) = ''00000001''" "peer_id (heap ?s (Suc 0)) = ''00000002''"
    "peer_id (heap ?s 2) = ''00000003''" "peers ?s ''00000001'' = Some 0"
    "socket (heap ?s 0) = OPEN" "socket (heap ?s (Suc 0)) = OPEN" "socket (heap ?s 2) = OPEN"
    by (simp_all add: handleConnection_def initial_def generateId_def hexByte_def hexDigit_def
        send_def Let_def)
  from first_join_hosts [OF v e] show ?thesis
    by (simp add: f joined_def delivered_def)
qed

section \<open>Disconnects\<close>





section \<open>Sending only on open sockets\<close>

text \<open>
  C10.  Whatever event the server handles (a connection, a message of any kind, a
  close), every frame it hands to a socket goes to a peer whose socket is \<^verbatim>\<open>OPEN\<close>;
  \<^verbatim>\<open>send\<close> to a peer whose socket is not \<^verbatim>\<open>OPEN\<close> returns the state it was given
  (no frame, no error to anyone, no other change), and \<^verbatim>\<open>send\<close> to a peer whose
  socket is \<^verbatim>\<open>OPEN\<close> appends exactly that frame.
\<close>

theorem send_only_when_open:
  "(\<exists>new. sent (onEvent e s) = sent s @ new
          \<and> (\<forall>(a, m) \<in> set new. socket (heap (onEvent e s) a) = OPEN))
   \<and> (socket (heap s peer) \<noteq> OPEN \<longrightarrow> send peer data s = s)
   \<and> (socket (heap s peer) = OPEN \<longrightarrow> send peer data s = s\<lparr>sent := sent s @ [(peer, data)]\<rparr>)"
proof -
  have "\<exists>new. sent (onEvent e s) = sent s @ new
          \<and> (\<forall>(a, m) \<in> set new. socket (heap (onEvent e s) a) = OPEN)"
  proof (cases e)
    case (Connection sock randomBytes)
    then show ?thesis
      by (simp add: handleConnection_def Let_def delivered_def)
  next
    case (Message p parsed)
    then show ?thesis
      using handleMessage_sent [of p parsed s] by (simp add: handleMessage_frame)
  next
    case (Close p)
    then show ?thesis
      using handleDisconnect_sent [of p s] by (simp add: handleDisconnect_frame)
  qed
  then show ?thesis by (simp add: send_def)
qed

theorem send_only_when_open_witness:
  "sent (onEvent (Message 0 (Some (JObj [(''type'', JStr ''signal''), (''target'', JStr ''00000002'')])))
          (handleConnection CLOSING [0, 0, 0, 2] (handleConnection OPEN [0, 0, 0, 1] initial)))
     = [(0, Welcome ''00000001'')]
   \<and> send 1 HostDisconnected
        (handleConnection CLOSING [0, 0, 0, 2] (handleConnection OPEN [0, 0, 0, 1] initial))
     = handleConnection CLOSING [0, 0, 0, 2] (handleConnection OPEN [0, 0, 0, 1] initial)"
proof -
  let ?s = "handleConnection CLOSING [0, 0, 0, 2] (handleConnection OPEN [0, 0, 0, 1] initial)"
  let ?e = "Message 0 (Some (JObj [(''type'', JStr ''signal''), (''target'', JStr ''00000002'')]))"
  have c: "socket (heap ?s 1) \<noteq> OPEN"
    by (simp add: handleConnection_def initial_def Let_def)
  have 1: "socket (heap (onEvent ?e ?s) 1) \<noteq> OPEN"
    using c by (simp add: handleMessage_frame)
  have t: "sent ?s = [(0, Welcome ''00000001'')]"
    by (simp add: handleConnection_def initial_def generateId_def hexByte_def hexDigit_def
        send_def Let_def)
  have p: "peers ?s ''00000002'' = Some 1"
    by (simp add: handleConnection_def initial_def generateId_def hexByte_def hexDigit_def
        send_def Let_def)
  have "sent (onEvent ?e ?s) = sent ?s @ delivered ?s 1 (Signal (peer_id (heap ?s 0)) JUndefined)"
    using p by (simp add: handleMessage_def routeSignal_def)
  then have "sent (onEvent ?e ?s) = [(0, Welcome ''00000001'')]"
    using c t by (simp add: delivered_def)
  moreover have "send 1 HostDisconnected ?s = ?s"
    using send_only_when_open [of ?e ?s 1 HostDisconnected] c by blast
  ultimately show ?thesis by blast
qed

section \<open>Routing to an identity that is not registered\<close>

text \<open>
  For a target that is not registered, \<^verbatim>\<open>routeSignal\<close> hands one \<^verbatim>\<open>error\<close> 404 for
  the sender to \<^verbatim>\<open>send\<close> and changes nothing else; \<^verbatim>\<open>routeData\<close> does nothing.
\<close>

lemma routeSignal_unknown_target:
  assumes "peersGet s (getProp data ''target'') = None"
  shows "routeSignal sender data s =
           s\<lparr>sent := sent s @ delivered s sender (Error 404 ''Peer alvo desconectado.'')\<rparr>"
  using assms by (simp add: routeSignal_def sendError_def send_eq)

lemma routeData_unknown_target:
  assumes "peersGet s (getProp data ''target'') = None"
  shows "routeData sender data s = s"
  using assms by (simp add: routeData_def)

text \<open>
  C3.  One peer is connected (reference 0, identity \<^verbatim>\<open>00000001\<close>, socket open) and
  sends \<^verbatim>\<open>{type:'data', target:'ffffffff', payload:'hi'}\<close>; no peer has that
  identity.  \<^verbatim>\<open>routeData\<close> leaves the state as it is: the sender gets no
  \<^verbatim>\<open>error\<close>.  The same message with \<^verbatim>\<open>type:'signal'\<close> is answered by
  \<^verbatim>\<open>routeSignal\<close> with \<^verbatim>\<open>error\<close> 404.
\<close>

theorem data_to_unknown_target_unanswered:
  "handleMessage 0
      (Some (JObj [(''type'', JStr ''data''), (''target'', JStr ''ffffffff''),
                   (''payload'', JStr ''hi'')]))
      (handleConnection OPEN [0, 0, 0, 1] initial)
     = handleConnection OPEN [0, 0, 0, 1] initial
   \<and> peers (handleConnection OPEN [0, 0, 0, 1] initial) ''ffffffff'' = None
   \<and> socket (heap (handleConnection OPEN [0, 0, 0, 1] initial) 0) = OPEN
   \<and> sent (handleMessage 0
      (Some (JObj [(''type'', JStr ''signal''), (''target'', JStr ''ffffffff''),
                   (''payload'', JStr ''hi'')]))
      (handleConnection OPEN [0, 0, 0, 1] initial))
     = [(0, Welcome ''00000001''), (0, Error 404 ''Peer alvo desconectado.'')]"
  by (simp add: handleMessage_def routeData_def routeSignal_def sendError_def
      handleConnection_def initial_def generateId_def hexByte_def hexDigit_def send_def
      delivered_def Let_def)

section \<open>Room keys\<close>

text \<open>
  Tenants whose project and instance are strings without \<^verbatim>\<open>#\<close> get different keys
  when they differ.
\<close>

lemma append_hash_inject:
  assumes "CHR ''#'' \<notin> set p" and "CHR ''#'' \<notin> set p'"
    and "p @ CHR ''#'' # r = p' @ CHR ''#'' # r'"
  shows "p = p' \<and> r = r'"
  using assms
proof (induction p arbitrary: p')
  case Nil
  then show ?case by (cases p') auto
next
  case (Cons c p)
  then show ?case by (cases p') auto
qed

lemma roomKeyOf_strings:
  assumes "i \<noteq> []"
  shows "roomKeyOf (JObj [(''project'', JStr p), (''instance'', JStr i), (''room'', JStr r)])
           = Inr (p @ ''#'' @ i @ ''#'' @ r)"
  using assms by (simp add: roomKeyOf_def)

lemma roomKeyOf_injective_without_hash:
  assumes "i \<noteq> []" and "i' \<noteq> []"
    and "CHR ''#'' \<notin> set p" and "CHR ''#'' \<notin> set i"
    and "CHR ''#'' \<notin> set p'" and "CHR ''#'' \<notin> set i'"
    and "roomKeyOf (JObj [(''project'', JStr p), (''instance'', JStr i), (''room'', JStr r)])
         = roomKeyOf (JObj [(''project'', JStr p'), (''instance'', JStr i'), (''room'', JStr r')])"
  shows "p = p' \<and> i = i' \<and> r = r'"
proof -
  have e: "p @ CHR ''#'' # (i @ CHR ''#'' # r) = p' @ CHR ''#'' # (i' @ CHR ''#'' # r')"
    using assms(7) by (simp add: roomKeyOf_strings assms(1,2))
  from append_hash_inject [OF assms(3,5) e]
  have 1: "p = p'" and 2: "i @ CHR ''#'' # r = i' @ CHR ''#'' # r'" by simp_all
  from append_hash_inject [OF assms(4,6) 2] 1 show ?thesis by simp
qed

text \<open>
  C4.  The tenants (\<^verbatim>\<open>a#b\<close>, \<^verbatim>\<open>c\<close>, \<^verbatim>\<open>d\<close>) and (\<^verbatim>\<open>a\<close>, \<^verbatim>\<open>b#c\<close>, \<^verbatim>\<open>d\<close>) differ in
  project and instance and get the same room key \<^verbatim>\<open>a#b#c#d\<close>: the second one's
  join lands in the room the first one created, as a client of its host.
\<close>

theorem room_key_collision:
  "roomKeyOf (JObj [(''project'', JStr ''a#b''), (''instance'', JStr ''c''), (''room'', JStr ''d'')])
     = Inr ''a#b#c#d''
   \<and> roomKeyOf (JObj [(''project'', JStr ''a''), (''instance'', JStr ''b#c''), (''room'', JStr ''d'')])
     = Inr ''a#b#c#d''
   \<and> sent (joinAll
        [(0, JObj [(''project'', JStr ''a#b''), (''instance'', JStr ''c''), (''room'', JStr ''d'')]),
         (1, JObj [(''project'', JStr ''a''), (''instance'', JStr ''b#c''), (''room'', JStr ''d'')])]
        (handleConnection OPEN [0, 0, 0, 2] (handleConnection OPEN [0, 0, 0, 1] initial)))
     = [(0, Welcome ''00000001''), (1, Welcome ''00000002''),
        (0, RoomCreated (JStr ''d'')),
        (1, RoomJoined (JStr ''d'') ''00000001''), (0, PeerJoined ''00000002'')]"
  by (simp add: joinAll_def joinRoomMsg_def handleMessage_def handleJoinRoom_def
      roomKeyOf_def setAdd_def handleConnection_def initial_def generateId_def hexByte_def
      hexDigit_def send_def Let_def)

section \<open>Identities\<close>

text \<open>
  C6.  Two connections for which \<^verbatim>\<open>crypto.randomBytes(4)\<close> returns the same bytes
  get the same identity; the second \<^verbatim>\<open>this.peers.set\<close> replaces the first peer's
  entry, so the first peer, welcomed under that identity, is no longer registered.
\<close>

theorem identity_collision_displaces:
  "peers (handleConnection OPEN [0, 0, 0, 1] initial) ''00000001'' = Some 0
   \<and> generateId [0, 0, 0, 1] = ''00000001''
   \<and> peers (handleConnection OPEN [0, 0, 0, 1] (handleConnection OPEN [0, 0, 0, 1] initial))
        = [''00000001'' \<mapsto> 1]
   \<and> sent (handleConnection OPEN [0, 0, 0, 1] (handleConnection OPEN [0, 0, 0, 1] initial))
        = [(0, Welcome ''00000001''), (1, Welcome ''00000001'')]
   \<and> peer_id (heap (handleConnection OPEN [0, 0, 0, 1]
                         (handleConnection OPEN [0, 0, 0, 1] initial)) 0) = ''00000001''
   \<and> socket (heap (handleConnection OPEN [0, 0, 0, 1]
                        (handleConnection OPEN [0, 0, 0, 1] initial)) 0) = OPEN"
  by (simp add: handleConnection_def initial_def generateId_def hexByte_def hexDigit_def
      send_def Let_def)

section \<open>Disconnecting twice\<close>

lemma disconnect_no_room:
  assumes "\<not> inRoom s peer"
  shows "handleDisconnect peer s = s\<lparr>peers := (peers s)(peer_id (heap s peer) := None)\<rparr>"
  using assms by (auto simp: handleDisconnect_def inRoom_def Let_def split: option.splits)

lemma disconnect_member:
  assumes "roomKey (heap s peer) = Some key" and "key \<noteq> []"
    and "rooms s key = Some roomData" and "\<not> isHost (heap s peer)"
  shows "handleDisconnect peer s =
           s\<lparr>peers := (peers s)(peer_id (heap s peer) := None),
             rooms := (rooms s)(key \<mapsto> roomData\<lparr>room_peers :=
                        removeAll (peer_id (heap s peer)) (room_peers roomData)\<rparr>),
             sent := sent s @ peerLeftAgain s peer\<rparr>"
  using assms
  by (simp add: handleDisconnect_def Let_def peerLeftAgain_def send_def delivered_def
      split: option.split)

lemma second_no_room:
  assumes "\<not> inRoom s peer"
  shows "handleDisconnect peer (handleDisconnect peer s) = handleDisconnect peer s"
proof -
  let ?s1 = "s\<lparr>peers := (peers s)(peer_id (heap s peer) := None)\<rparr>"
  have 1: "handleDisconnect peer s = ?s1" by (rule disconnect_no_room [OF assms])
  have "\<not> inRoom ?s1 peer" using assms by (simp add: inRoom_def cong: option.case_cong)
  from disconnect_no_room [OF this] show ?thesis by (simp add: 1)
qed

lemma second_member:
  assumes "roomKey (heap s peer) = Some key" and "key \<noteq> []"
    and "rooms s key = Some roomData" and "\<not> isHost (heap s peer)"
  shows "handleDisconnect peer (handleDisconnect peer s) =
           (handleDisconnect peer s)\<lparr>sent := sent (handleDisconnect peer s) @ peerLeftAgain s peer\<rparr>"
proof -
  let ?r = "roomData\<lparr>room_peers := removeAll (peer_id (heap s peer)) (room_peers roomData)\<rparr>"
  let ?t = "s\<lparr>peers := (peers s)(peer_id (heap s peer) := None),
             rooms := (rooms s)(key \<mapsto> ?r),
             sent := sent s @ peerLeftAgain s peer\<rparr>"
  have 1: "handleDisconnect peer s = ?t" by (rule disconnect_member [OF assms])
  have k: "roomKey (heap ?t peer) = Some key" using assms(1) by simp
  have r: "rooms ?t key = Some ?r" by simp
  have h: "\<not> isHost (heap ?t peer)" using assms(4) by simp
  have again: "peerLeftAgain ?t peer = peerLeftAgain s peer"
    using assms by (simp add: peerLeftAgain_def delivered_def cong: option.case_cong)
  from disconnect_member [OF k assms(2) r h] show ?thesis
    by (simp add: 1 again)
qed

lemma second_host:
  assumes "roomKey (heap s peer) = Some key" and "key \<noteq> []"
    and "rooms s key = Some roomData" and "isHost (heap s peer)"
  shows "handleDisconnect peer (handleDisconnect peer s) = handleDisconnect peer s"
proof -
  let ?s1 = "s\<lparr>peers := (peers s)(peer_id (heap s peer) := None)\<rparr>"
  let ?s2 = "fold notifyClient (room_peers roomData) ?s1"
  have eq: "handleDisconnect peer s = roomsDelete (roomKey (heap ?s2 peer)) ?s2"
    using host_disconnect_eq [OF assms] by (simp add: Let_def)
  have "roomKey (heap ?s2 peer) = None \<or> roomKey (heap ?s2 peer) = Some key"
    using assms(1) by (simp add: roomKey_fold_notifyClient)
  then have "\<not> inRoom (handleDisconnect peer s) peer"
    by (auto simp: eq inRoom_def roomsDelete_def)
  from disconnect_no_room [OF this] show ?thesis
    by (simp add: handleDisconnect_frame peers_handleDisconnect)
qed

lemma second_disconnect_eq:
  "handleDisconnect peer (handleDisconnect peer s) =
     (handleDisconnect peer s)\<lparr>sent := sent (handleDisconnect peer s) @ peerLeftAgain s peer\<rparr>"
proof (cases "inRoom s peer")
  case False
  then have "peerLeftAgain s peer = []"
    by (auto simp: inRoom_def peerLeftAgain_def split: option.splits)
  then show ?thesis using second_no_room [OF False] by simp
next
  case True
  then obtain key roomData where k: "roomKey (heap s peer) = Some key" "key \<noteq> []"
      "rooms s key = Some roomData"
    by (auto simp: inRoom_def split: option.splits)
  show ?thesis
  proof (cases "isHost (heap s peer)")
    case True
    then have "peerLeftAgain s peer = []"
      using k by (simp add: peerLeftAgain_def)
    then show ?thesis using second_host [OF k True] by simp
  next
    case False
    then show ?thesis by (rule second_member [OF k])
  qed
qed

text \<open>
  C5, as the code has it.  Running \<^verbatim>\<open>handleDisconnect\<close> a second time for the same
  peer, right after the first, changes nothing in the registry, the rooms or the
  peers.  It sends nothing when the peer was a host or had no existing room.  When
  the peer was a member (not host) of a room that exists, the second run sends what
  the first did: \<^verbatim>\<open>peer-left\<close> to the room's host, if the host is registered.
\<close>

theorem second_disconnect:
  "handleDisconnect peer (handleDisconnect peer s) =
     (handleDisconnect peer s)\<lparr>sent := sent (handleDisconnect peer s) @ peerLeftAgain s peer\<rparr>
   \<and> (isHost (heap s peer) \<or> \<not> inRoom s peer
        \<longrightarrow> handleDisconnect peer (handleDisconnect peer s) = handleDisconnect peer s)"
proof -
  have "peerLeftAgain s peer = []" if "isHost (heap s peer) \<or> \<not> inRoom s peer"
    using that by (auto simp: inRoom_def peerLeftAgain_def split: option.splits)
  then show ?thesis using second_disconnect_eq [of peer s] by simp
qed

theorem second_disconnect_witness:
  "handleDisconnect 0 (handleDisconnect 0 (joinAll
       [(0, JObj [(''project'', JStr ''game''), (''room'', JStr ''boss'')]),
        (1, JObj [(''project'', JStr ''game''), (''room'', JStr ''boss'')])]
       (handleConnection OPEN [0, 0, 0, 2] (handleConnection OPEN [0, 0, 0, 1] initial))))
   = handleDisconnect 0 (joinAll
       [(0, JObj [(''project'', JStr ''game''), (''room'', JStr ''boss'')]),
        (1, JObj [(''project'', JStr ''game''), (''room'', JStr ''boss'')])]
       (handleConnection OPEN [0, 0, 0, 2] (handleConnection OPEN [0, 0, 0, 1] initial)))"
proof -
  let ?s = "joinAll
       [(0, JObj [(''project'', JStr ''game''), (''room'', JStr ''boss'')]),
        (1, JObj [(''project'', JStr ''game''), (''room'', JStr ''boss'')])]
       (handleConnection OPEN [0, 0, 0, 2] (handleConnection OPEN [0, 0, 0, 1] initial))"
  have h: "isHost (heap ?s 0)"
    by (simp add: joinAll_def joinRoomMsg_def handleMessage_def handleJoinRoom_def
        roomKeyOf_def setAdd_def handleConnection_def initial_def generateId_def hexByte_def
        hexDigit_def send_def Let_def)
  from second_disconnect [of 0 ?s] h show ?thesis by blast
qed

text \<open>
  C5 as stated fails: peer 0 hosts a room, peer 1 is its member and disconnects
  twice; the second run sends the host a second \<^verbatim>\<open>peer-left\<close>.
\<close>

theorem second_member_disconnect_repeats_peer_left:
  "sent (handleDisconnect 1 (joinAll
       [(0, JObj [(''project'', JStr ''game''), (''room'', JStr ''boss'')]),
        (1, JObj [(''project'', JStr ''game''), (''room'', JStr ''boss'')])]
       (handleConnection OPEN [0, 0, 0, 2] (handleConnection OPEN [0, 0, 0, 1] initial))))
     = [(0, Welcome ''00000001''), (1, Welcome ''00000002''),
        (0, RoomCreated (JStr ''boss'')),
        (1, RoomJoined (JStr ''boss'') ''00000001''), (0, PeerJoined ''00000002''),
        (0, PeerLeft ''00000002'')]
   \<and> sent (handleDisconnect 1 (handleDisconnect 1 (joinAll
       [(0, JObj [(''project'', JStr ''game''), (''room'', JStr ''boss'')]),
        (1, JObj [(''project'', JStr ''game''), (''room'', JStr ''boss'')])]
       (handleConnection OPEN [0, 0, 0, 2] (handleConnection OPEN [0, 0, 0, 1] initial)))))
     = [(0, Welcome ''00000001''), (1, Welcome ''00000002''),
        (0, RoomCreated (JStr ''boss'')),
        (1, RoomJoined (JStr ''boss'') ''00000001''), (0, PeerJoined ''00000002''),
        (0, PeerLeft ''00000002''), (0, PeerLeft ''00000002'')]"
  by (simp add: handleDisconnect_def joinAll_def joinRoomMsg_def handleMessage_def
      handleJoinRoom_def roomKeyOf_def setAdd_def handleConnection_def initial_def
      generateId_def hexByte_def hexDigit_def send_def Let_def)

section \<open>Membership in at most one room\<close>




lemma memberOfAtMostOne_initial: "memberOfAtMostOne initial"
  by (simp add: memberOfAtMostOne_def initial_def)







section \<open>Rooms a peer joined before its last one\<close>





end
